theory Spec2Isabelle
  imports Complex_Main "HOL-Library.Char_ord" "HOL-Library.List_Lexorder"
begin

section \<open>Strings\<close>

text \<open>
  Python strings are modelled as \<open>string\<close> (lists of 8-bit characters). \<open>str.lower\<close> is
  modelled on the ASCII letters, which is what it does on ASCII text; the statements
  below use it only to compare lower-cased names and hold for any other choice of the
  letters it changes. The comparison \<open>s <= t\<close> of two strings is the lexicographic
  order of \<open>HOL-Library.List_Lexorder\<close> over the character codes.
\<close>

definition lower_char :: "char \<Rightarrow> char" where
  "lower_char c =
     (case map_of (zip ''ABCDEFGHIJKLMNOPQRSTUVWXYZ'' ''abcdefghijklmnopqrstuvwxyz'') c of
        None \<Rightarrow> c
      | Some d \<Rightarrow> d)"

definition lower :: "string \<Rightarrow> string" where
  "lower s = map lower_char s"

section \<open>Numbers and text\<close>

text \<open>
  Python's \<open>int\<close> is \<open>int\<close>. A Python \<open>float\<close> is modelled by the rational number it
  stands for (\<open>2.99\<close> is \<open>299 / 100\<close>) and \<open>+\<close>, \<open>*\<close> by the exact operations: the
  rounding of binary floating point is not part of this model, nor is the range of a
  double (Python raises \<open>OverflowError\<close> when an integer beyond it meets a float), and
  no statement below depends on a law of arithmetic that floating point lacks. \<open>sum\<close>
  adds from the left, starting at 0.
\<close>

definition py_sum :: "rat list \<Rightarrow> rat" where
  "py_sum xs = foldl (+) 0 xs"

text \<open>\<open>round(x, 2)\<close> on the exact value: to the nearest hundredth, a tie to the even one.\<close>

definition round2 :: "rat \<Rightarrow> rat" where
  "round2 x =
     (let y = x * 100; f = \<lfloor>y\<rfloor>; r = y - of_int f
      in of_int (if r < 1 / 2 then f else if 1 / 2 < r then f + 1
                 else if even f then f else f + 1) / 100)"

text \<open>\<open>str(i)\<close> of an integer: its decimal digits, after a minus sign when negative.\<close>

definition digit_char :: "nat \<Rightarrow> char" where
  "digit_char d = ''0123456789'' ! d"

function str_nat :: "nat \<Rightarrow> string" where
  "str_nat n = (if n < 10 then [digit_char n] else str_nat (n div 10) @ [digit_char (n mod 10)])"
  by pat_completeness auto
termination
  by (relation "measure id") auto

declare str_nat.simps [simp del]

definition str_int :: "int \<Rightarrow> string" where
  "str_int i = (if i < 0 then CHR ''-'' # str_nat (nat (- i)) else str_nat (nat i))"

text \<open>
  \<open>s.split(sep)\<close> for a one-character separator: the pieces between the separators,
  always at least one piece.
\<close>

fun split_char :: "char \<Rightarrow> string \<Rightarrow> string list" where
  "split_char sep [] = [[]]"
| "split_char sep (c # cs) =
     (if c = sep then [] # split_char sep cs
      else (case split_char sep cs of
              [] \<Rightarrow> [[c]]
            | piece # pieces \<Rightarrow> (c # piece) # pieces))"

text \<open>
  \<open>int(s)\<close> on text: surrounding white space is dropped, one sign is allowed, and what
  is left must be one or more decimal digits; anything else is a \<open>ValueError\<close>
  (\<open>None\<close>). The single underscores that \<open>int\<close> accepts between digits are left out:
  the only call passes a piece of \<open>split('_')\<close>, which has none. Digits and white
  space are the ASCII ones.
\<close>

definition is_space :: "char \<Rightarrow> bool" where
  "is_space c = (c \<in> set [CHR '' '', CHR 0x09, CHR 0x0A, CHR 0x0B, CHR 0x0C, CHR 0x0D,
                           CHR 0x1C, CHR 0x1D, CHR 0x1E, CHR 0x1F])"

definition is_digit :: "char \<Rightarrow> bool" where
  "is_digit c = (c \<in> set ''0123456789'')"

definition strip :: "string \<Rightarrow> string" where
  "strip s = rev (dropWhile is_space (rev (dropWhile is_space s)))"

definition digit_value :: "char \<Rightarrow> nat" where
  "digit_value c = of_char c - 48"

definition digits_value :: "string \<Rightarrow> nat" where
  "digits_value ds = foldl (\<lambda>acc c. 10 * acc + digit_value c) 0 ds"

definition unsigned_int :: "string \<Rightarrow> int option" where
  "unsigned_int ds = (if ds \<noteq> [] \<and> list_all is_digit ds then Some (int (digits_value ds)) else None)"

definition py_int :: "string \<Rightarrow> int option" where
  "py_int s =
     (case strip s of
        [] \<Rightarrow> None
      | c # cs \<Rightarrow>
          if c = CHR ''-'' then map_option uminus (unsigned_int cs)
          else if c = CHR ''+'' then unsigned_int cs
          else unsigned_int (c # cs))"

text \<open>
  A \<open>dict\<close> whose order matters is the list of its entries in insertion order, with
  distinct keys; \<open>d.get(k, default)\<close> reads it.
\<close>

definition dict_get :: "('k \<times> 'v) list \<Rightarrow> 'k \<Rightarrow> 'v \<Rightarrow> 'v" where
  "dict_get d k dflt = (case map_of d k of None \<Rightarrow> dflt | Some v \<Rightarrow> v)"

section \<open>Dates and times\<close>

text \<open>
  A naive \<open>datetime\<close>: the day (a running day number), and the time of day. Adding a
  \<open>timedelta\<close> moves the day number and carries from the time of day as the library
  does; \<open>replace\<close> sets fields. The library's bound on the year is not modelled.
  The text forms of a \<open>datetime\<close> (\<open>strftime\<close>, \<open>isoformat\<close>), the parser
  \<open>fromisoformat\<close> (\<open>None\<close> is its \<open>ValueError\<close>) and the format \<open>.2f\<close> of a
  float belong to Python's library, not to this repository: every function that uses
  them takes them in a \<open>py_lib\<close>.
\<close>

record datetime =
  day_number :: int
  hour :: int
  minute :: int
  second :: int
  microsecond :: int

record py_lib =
  strftime :: "string \<Rightarrow> datetime \<Rightarrow> string"
  isoformat :: "datetime \<Rightarrow> string"
  fromisoformat :: "string \<Rightarrow> datetime option"
  format_2f :: "rat \<Rightarrow> string"

definition plus_days :: "datetime \<Rightarrow> int \<Rightarrow> datetime" where
  "plus_days dt n = dt\<lparr>day_number := day_number dt + n\<rparr>"

definition plus_seconds :: "datetime \<Rightarrow> int \<Rightarrow> datetime" where
  "plus_seconds dt s =
     (let t = hour dt * 3600 + minute dt * 60 + second dt + s
      in dt\<lparr>day_number := day_number dt + t div 86400,
            hour := (t mod 86400) div 3600,
            minute := (t mod 3600) div 60,
            second := t mod 60\<rparr>)"

section \<open>The fridge inventory\<close>

text \<open>
  \<^verbatim>\<open>@dataclass class FridgeItem\<close>: five fields; equality of two items is equality of
  all fields, which is what \<open>list.remove\<close> uses.
\<close>

record FridgeItem =
  name :: string
  quantity :: int
  unit :: string
  expiry_date :: string
  category :: string

text \<open>\<^verbatim>\<open>FridgeInventory._create_default_inventory\<close>.\<close>

definition default_items :: "FridgeItem list" where
  "default_items =
     [\<lparr>name = ''Milk'', quantity = 1, unit = ''gallon'', expiry_date = ''2025-07-25'', category = ''dairy''\<rparr>,
      \<lparr>name = ''Eggs'', quantity = 8, unit = ''pieces'', expiry_date = ''2025-07-30'', category = ''dairy''\<rparr>,
      \<lparr>name = ''Chicken Breast'', quantity = 2, unit = ''lbs'', expiry_date = ''2025-07-22'', category = ''meat''\<rparr>,
      \<lparr>name = ''Broccoli'', quantity = 1, unit = ''head'', expiry_date = ''2025-07-21'', category = ''vegetable''\<rparr>,
      \<lparr>name = ''Carrots'', quantity = 5, unit = ''pieces'', expiry_date = ''2025-07-28'', category = ''vegetable''\<rparr>,
      \<lparr>name = ''Bread'', quantity = 1, unit = ''loaf'', expiry_date = ''2025-07-20'', category = ''grain''\<rparr>,
      \<lparr>name = ''Cheese'', quantity = 8, unit = ''oz'', expiry_date = ''2025-08-01'', category = ''dairy''\<rparr>,
      \<lparr>name = ''Tomatoes'', quantity = 3, unit = ''pieces'', expiry_date = ''2025-07-23'', category = ''vegetable''\<rparr>,
      \<lparr>name = ''Onion'', quantity = 2, unit = ''pieces'', expiry_date = ''2025-08-05'', category = ''vegetable''\<rparr>,
      \<lparr>name = ''Rice'', quantity = 2, unit = ''cups'', expiry_date = ''2026-01-01'', category = ''grain''\<rparr>]"

text \<open>
  \<^verbatim>\<open>FridgeInventory.remove_item\<close>. The loop walks \<open>self.items\<close>; \<open>seen\<close> holds the lines
  already passed (none of them matched). At the first line whose lower-cased name is the
  lower-cased argument the method returns: with \<open>True\<close> after decrementing the line in
  place and, when it has reached 0, calling \<open>self.items.remove(item)\<close> (the first
  element of the whole list equal to the decremented line, \<open>remove1\<close>); with \<open>False\<close>
  when the line holds less than the requested quantity. When no line matches it returns
  \<open>False\<close>. The result is the returned flag and the list of lines afterwards.
  \<open>save_inventory\<close> writes the list to a file and absorbs its own errors; it does not
  touch \<open>self.items\<close> and is left out.
\<close>

fun remove_scan :: "FridgeItem list \<Rightarrow> FridgeItem list \<Rightarrow> string \<Rightarrow> int \<Rightarrow> bool \<times> FridgeItem list" where
  "remove_scan seen [] n q = (False, seen)"
| "remove_scan seen (item # rest) n q =
     (if lower (name item) = lower n then
        (if quantity item \<ge> q then
           (let item' = item\<lparr>quantity := quantity item - q\<rparr>;
                items' = seen @ item' # rest
            in (True, if quantity item' = 0 then remove1 item' items' else items'))
         else (False, seen @ item # rest))
      else remove_scan (seen @ [item]) rest n q)"

definition remove_item :: "FridgeItem list \<Rightarrow> string \<Rightarrow> int \<Rightarrow> bool \<times> FridgeItem list" where
  "remove_item items n q = remove_scan [] items n q"

text \<open>
  \<^verbatim>\<open>FridgeInventory.add_item\<close>: the first line with the same lower-cased name gets the
  new quantity added; when there is none the item is appended.
\<close>

fun add_item :: "FridgeItem list \<Rightarrow> FridgeItem \<Rightarrow> FridgeItem list" where
  "add_item [] item = [item]"
| "add_item (existing_item # rest) item =
     (if lower (name existing_item) = lower (name item)
      then existing_item\<lparr>quantity := quantity existing_item + quantity item\<rparr> # rest
      else existing_item # add_item rest item)"



text \<open>
  Sequences of calls on one inventory: the operations of the store, a call as a value,
  and the state after running a list of calls from left to right.
\<close>

datatype inventory_call = Add FridgeItem | Remove string int

fun apply_call :: "FridgeItem list \<Rightarrow> inventory_call \<Rightarrow> FridgeItem list" where
  "apply_call items (Add item) = add_item items item"
| "apply_call items (Remove n q) = snd (remove_item items n q)"

fun run_calls :: "FridgeItem list \<Rightarrow> inventory_call list \<Rightarrow> FridgeItem list" where
  "run_calls items [] = items"
| "run_calls items (c # cs) = run_calls (apply_call items c) cs"

subsection \<open>Vocabulary of the statements\<close>

text \<open>
  \<open>same_name n\<close> holds of the lines that the loops of \<open>remove_item\<close> and \<open>add_item\<close>
  stop at: those whose lower-cased name is the lower-cased \<open>n\<close>. \<open>before n items\<close>
  are the lines in front of the first such line and \<open>after n items\<close> the lines behind
  it, so that \<open>items = before n items @ line # after n items\<close> when \<open>line\<close> is the
  first line with that name.
\<close>

definition same_name :: "string \<Rightarrow> FridgeItem \<Rightarrow> bool" where
  "same_name n item = (lower (name item) = lower n)"

definition other_name :: "string \<Rightarrow> FridgeItem \<Rightarrow> bool" where
  "other_name n item = (lower (name item) \<noteq> lower n)"

definition first_line :: "FridgeItem list \<Rightarrow> string \<Rightarrow> FridgeItem option" where
  "first_line items n = find (same_name n) items"

definition before :: "string \<Rightarrow> FridgeItem list \<Rightarrow> FridgeItem list" where
  "before n items = takeWhile (other_name n) items"

definition after :: "string \<Rightarrow> FridgeItem list \<Rightarrow> FridgeItem list" where
  "after n items = tl (dropWhile (other_name n) items)"

text \<open>
  The invariants of the data model: every line has a quantity \<open>\<ge> 0\<close>, no line has
  quantity 0, and both together. The constraints on the arguments of a call: a
  quantity \<open>\<ge> 0\<close> (the field constraint of the data model) and, stronger, an added item
  with a quantity \<open>> 0\<close>.
\<close>

definition no_negative_line :: "FridgeItem list \<Rightarrow> bool" where
  "no_negative_line items = list_all (\<lambda>item. 0 \<le> quantity item) items"

definition no_zero_line :: "FridgeItem list \<Rightarrow> bool" where
  "no_zero_line items = list_all (\<lambda>item. quantity item \<noteq> 0) items"

definition positive_lines :: "FridgeItem list \<Rightarrow> bool" where
  "positive_lines items = list_all (\<lambda>item. 0 < quantity item) items"

fun quantity_nonneg :: "inventory_call \<Rightarrow> bool" where
  "quantity_nonneg (Add item) = (0 \<le> quantity item)"
| "quantity_nonneg (Remove n q) = (0 \<le> q)"

fun quantity_adds_positive :: "inventory_call \<Rightarrow> bool" where
  "quantity_adds_positive (Add item) = (0 < quantity item)"
| "quantity_adds_positive (Remove n q) = (0 \<le> q)"

section \<open>The meal planner\<close>

text \<open>\<^verbatim>\<open>@dataclass class GroceryItem\<close>; a grocery list holds the items' \<open>__dict__\<close>.\<close>

record GroceryItem =
  g_name :: string
  g_quantity :: int
  g_unit :: string
  g_category :: string
  estimated_price :: rat
  store_item_id :: "string option"

text \<open>
  The dictionary a plan generator returns, with its keys \<open>meal_plan\<close> (day key to the
  meals of the day, themselves a dictionary from meal to description), \<open>grocery_list\<close>
  and \<open>notes\<close> (here \<open>plan_notes\<close>). Every reader uses \<open>.get\<close> with an empty default, so an absent key
  and an empty value are one case.
\<close>

type_synonym meals = "(string \<times> string) list"

record plan_dict =
  meal_plan :: "(string \<times> meals) list"
  grocery_list :: "GroceryItem list"
  plan_notes :: "string list"

text \<open>\<^verbatim>\<open>MealPlanner._generate_mock_meal_plan\<close>; \<open>[1..days]\<close> is \<open>range(1, days + 1)\<close>.\<close>

definition generate_mock_meal_plan :: "FridgeItem list \<Rightarrow> int \<Rightarrow> plan_dict" where
  "generate_mock_meal_plan inventory days =
     \<lparr>meal_plan =
        map (\<lambda>day. (''day_'' @ str_int day,
                     [(''breakfast'', ''Scrambled eggs with cheese''),
                      (''lunch'', ''Chicken and vegetable stir-fry''),
                      (''dinner'', ''Grilled salmon with rice and broccoli'')]))
            [1..days],
      grocery_list =
        [\<lparr>g_name = ''Spinach'', g_quantity = 1, g_unit = ''bag'', g_category = ''vegetable'',
          estimated_price = 299 / 100, store_item_id = None\<rparr>,
         \<lparr>g_name = ''Salmon'', g_quantity = 1, g_unit = ''lb'', g_category = ''seafood'',
          estimated_price = 1299 / 100, store_item_id = None\<rparr>,
         \<lparr>g_name = ''Pasta'', g_quantity = 1, g_unit = ''box'', g_category = ''grain'',
          estimated_price = 149 / 100, store_item_id = None\<rparr>,
         \<lparr>g_name = ''Olive Oil'', g_quantity = 1, g_unit = ''bottle'', g_category = ''condiment'',
          estimated_price = 499 / 100, store_item_id = None\<rparr>],
      plan_notes =
        [''This is a mock meal plan. Connect OpenAI API for personalized planning.'',
         ''Use ingredients expiring soon first.'',
         ''Consider batch cooking for efficiency.'']\<rparr>"

text \<open>
  \<^verbatim>\<open>MealPlanner.generate_meal_plan\<close>. What the remote generator did is an input: there
  is no API key, or the request or the parsing of its answer raised (both end in the mock
  plan), or the answer parsed to a plan.
\<close>

datatype live_outcome = No_api_key | Live_failed | Live_plan plan_dict

fun generate_meal_plan :: "live_outcome \<Rightarrow> FridgeItem list \<Rightarrow> int \<Rightarrow> plan_dict" where
  "generate_meal_plan No_api_key inventory days = generate_mock_meal_plan inventory days"
| "generate_meal_plan Live_failed inventory days = generate_mock_meal_plan inventory days"
| "generate_meal_plan (Live_plan p) inventory days = p"

section \<open>The grocery manager\<close>

text \<open>
  \<open>self.store_catalog\<close>, a dictionary from a lower-case product name to its entry, is a
  field of the manager; \<open>store_catalog_init\<close> is the value \<open>__init__\<close> gives it, and no
  method assigns it again.
\<close>

record catalog_entry =
  price :: rat
  c_unit :: string
  available :: bool
  store_id :: string

type_synonym catalog = "(string \<times> catalog_entry) list"

definition store_catalog_init :: catalog where
  "store_catalog_init =
     [(''milk'', \<lparr>price = 399 / 100, c_unit = ''gallon'', available = True, store_id = ''MILK001''\<rparr>),
      (''eggs'', \<lparr>price = 249 / 100, c_unit = ''dozen'', available = True, store_id = ''EGG001''\<rparr>),
      (''chicken breast'', \<lparr>price = 899 / 100, c_unit = ''lb'', available = True, store_id = ''CHKN001''\<rparr>),
      (''broccoli'', \<lparr>price = 199 / 100, c_unit = ''head'', available = True, store_id = ''BROC001''\<rparr>),
      (''spinach'', \<lparr>price = 299 / 100, c_unit = ''bag'', available = True, store_id = ''SPIN001''\<rparr>),
      (''salmon'', \<lparr>price = 1299 / 100, c_unit = ''lb'', available = True, store_id = ''SALM001''\<rparr>),
      (''pasta'', \<lparr>price = 149 / 100, c_unit = ''box'', available = True, store_id = ''PAST001''\<rparr>),
      (''olive oil'', \<lparr>price = 499 / 100, c_unit = ''bottle'', available = True, store_id = ''OIL001''\<rparr>)]"

text \<open>
  One element of the list \<open>search_products\<close> returns: the requested item, the store's
  item or \<open>None\<close>, and the \<open>error\<close> text that only a miss carries.
\<close>

record store_item =
  si_name :: string
  si_store_id :: string
  si_price :: rat
  si_unit :: string
  si_available :: bool
  total_cost :: rat

record product =
  requested_item :: GroceryItem
  store_item :: "store_item option"
  error :: "string option"

text \<open>\<^verbatim>\<open>GroceryManager.search_products\<close>: the loop appends one element per item.\<close>

fun search_products :: "catalog \<Rightarrow> GroceryItem list \<Rightarrow> product list" where
  "search_products store_catalog [] = []"
| "search_products store_catalog (item # rest) =
     (let item_key = lower (g_name item)
      in (case map_of store_catalog item_key of
            Some entry \<Rightarrow>
              \<lparr>requested_item = item,
               store_item = Some \<lparr>si_name = g_name item,
                                  si_store_id = store_id entry,
                                  si_price = price entry,
                                  si_unit = c_unit entry,
                                  si_available = available entry,
                                  total_cost = price entry * of_int (g_quantity item)\<rparr>,
               error = None\<rparr>
          | None \<Rightarrow>
              \<lparr>requested_item = item,
               store_item = None,
               error = Some ''Product not found in store catalog''\<rparr>))
     # search_products store_catalog rest"

text \<open>
  An order, and what \<open>create_order\<close> returns: the dictionary with the one key \<open>error\<close>,
  or an order.
\<close>

record order =
  order_id :: string
  status :: string
  order_items :: "product list"
  subtotal :: rat
  delivery_fee :: rat
  tip :: rat
  total :: rat
  estimated_delivery :: string
  store :: string
  created_at :: string

datatype order_result = Order_error string | Order order

text \<open>
  \<^verbatim>\<open>GroceryManager.create_order\<close>. \<open>matched_and_available\<close> is the filter of its first
  line; \<open>store_totals\<close> reads \<open>p['store_item']['total_cost']\<close> off the elements that
  have a store item, which the filtered ones all do. The three readings of
  \<open>datetime.now()\<close> are taken as one instant. \<open>delivery_time or default\<close> takes the
  default also for the empty text.
\<close>

definition matched_and_available :: "product \<Rightarrow> bool" where
  "matched_and_available p = (case store_item p of None \<Rightarrow> False | Some si \<Rightarrow> si_available si)"

definition store_totals :: "product list \<Rightarrow> rat list" where
  "store_totals ps = map total_cost (List.map_filter store_item ps)"

definition create_order :: "py_lib \<Rightarrow> datetime \<Rightarrow> product list \<Rightarrow> string option \<Rightarrow> order_result" where
  "create_order lib now products delivery_time =
     (let available_products = filter matched_and_available products
      in if available_products = [] then Order_error ''No available products to order''
         else
           (let total_cost = py_sum (store_totals available_products);
                delivery_fee = 599 / 100;
                tip = total_cost * (15 / 100);
                total_with_fees = total_cost + delivery_fee + tip;
                default_delivery = strftime lib ''%Y-%m-%d %H:%M'' (plus_seconds now (2 * 3600))
            in Order
                 \<lparr>order_id = ''ORD_'' @ strftime lib ''%Y%m%d_%H%M%S'' now,
                  status = ''confirmed'',
                  order_items = available_products,
                  subtotal = round2 total_cost,
                  delivery_fee = delivery_fee,
                  tip = round2 tip,
                  total = round2 total_with_fees,
                  estimated_delivery =
                    (case delivery_time of
                       None \<Rightarrow> default_delivery
                     | Some t \<Rightarrow> if t = [] then default_delivery else t),
                  store = ''Mock Grocery Store'',
                  created_at = isoformat lib now\<rparr>))"

section \<open>The calendar manager\<close>

text \<open>
  An event of the calendar. The dictionaries of the two kinds differ in one key:
  a delivery reminder has \<open>reminder_time\<close>, a meal-prep reminder
  \<open>duration_minutes\<close>. The key \<open>type\<close> is \<open>event_type\<close> here and \<open>status\<close> is
  \<open>event_status\<close>. \<open>self.events\<close> is a list of events, passed in and returned.
\<close>

record event =
  event_id :: string
  title :: string
  description :: string
  start_time :: string
  reminder_time :: "string option"
  duration_minutes :: "int option"
  event_type :: string
  event_status :: string

datatype py_error = IndexError | ValueError

text \<open>\<open>s.replace('Z', '+00:00')\<close>.\<close>

definition replace_Z :: "string \<Rightarrow> string" where
  "replace_Z s = concat (map (\<lambda>c. if c = CHR ''Z'' then ''+00:00'' else [c]) s)"

text \<open>
  \<^verbatim>\<open>CalendarManager.schedule_delivery_reminder\<close>: the event log afterwards and the
  returned event, or the \<open>ValueError\<close> of \<open>fromisoformat\<close>, raised before anything
  is appended.
\<close>

definition schedule_delivery_reminder :: "py_lib \<Rightarrow> event list \<Rightarrow> order \<Rightarrow> event list \<times> (py_error + event)" where
  "schedule_delivery_reminder lib events ord =
     (case fromisoformat lib (replace_Z (estimated_delivery ord)) of
        None \<Rightarrow> (events, Inl ValueError)
      | Some delivery_time \<Rightarrow>
          (let reminder = plus_seconds delivery_time (- (30 * 60));
               ev = \<lparr>event_id = ''DELIVERY_'' @ order_id ord,
                     title = ''Grocery Delivery Arriving - Order '' @ order_id ord,
                     description = ''Grocery delivery from '' @ store ord @ [CHR 0x0A]
                        @ ''Total: $'' @ format_2f lib (total ord) @ [CHR 0x0A]
                        @ ''Items: '' @ str_int (int (length (order_items ord))) @ '' items'',
                     start_time = isoformat lib delivery_time,
                     reminder_time = Some (isoformat lib reminder),
                     duration_minutes = None,
                     event_type = ''delivery_reminder'',
                     event_status = ''scheduled''\<rparr>
           in (events @ [ev], Inr ev)))"

text \<open>
  \<open>int(day_key.split('_')[1]) - 1\<close>: an \<open>IndexError\<close> when the key has no second
  piece, a \<open>ValueError\<close> when the piece is not an integer.
\<close>

definition day_num_of :: "string \<Rightarrow> py_error + int" where
  "day_num_of day_key =
     (case split_char CHR ''_'' day_key of
        key_head # piece # others \<Rightarrow>
          (case py_int piece of None \<Rightarrow> Inl ValueError | Some i \<Rightarrow> Inr (i - 1))
      | _ \<Rightarrow> Inl IndexError)"

text \<open>The event built in the body of the loop of \<open>schedule_meal_prep_reminders\<close>.\<close>

definition meal_prep_event :: "py_lib \<Rightarrow> datetime \<Rightarrow> string \<Rightarrow> meals \<Rightarrow> int \<Rightarrow> event" where
  "meal_prep_event lib base_date day_key day_meals day_num =
     (let event_date = plus_days base_date day_num
      in \<lparr>event_id = ''MEAL_PREP_'' @ day_key,
          title = ''Meal Prep - Day '' @ str_int (day_num + 1),
          description = ''Tonight'' @ [CHR 0x27] @ ''s dinner: '' @ dict_get day_meals ''dinner'' ''TBD''
             @ [CHR 0x0A]
             @ ''Tomorrow'' @ [CHR 0x27] @ ''s breakfast: '' @ dict_get day_meals ''breakfast'' ''TBD'',
          start_time = isoformat lib event_date,
          reminder_time = None,
          duration_minutes = Some 60,
          event_type = ''meal_prep'',
          event_status = ''scheduled''\<rparr>)"

text \<open>
  \<^verbatim>\<open>CalendarManager.schedule_meal_prep_reminders\<close>. The loop carries the local list
  \<open>events\<close> and the log \<open>self.events\<close> (here \<open>evlog\<close>); an exception in the body leaves
  the log with what was appended before it.
\<close>

fun meal_prep_loop :: "py_lib \<Rightarrow> datetime \<Rightarrow> (string \<times> meals) list \<Rightarrow> event list \<Rightarrow> event list
    \<Rightarrow> event list \<times> (py_error + event list)" where
  "meal_prep_loop lib base_date [] events evlog = (evlog, Inr events)"
| "meal_prep_loop lib base_date ((day_key, day_meals) # rest) events evlog =
     (case day_num_of day_key of
        Inl e \<Rightarrow> (evlog, Inl e)
      | Inr day_num \<Rightarrow>
          (let ev = meal_prep_event lib base_date day_key day_meals day_num
           in meal_prep_loop lib base_date rest (events @ [ev]) (evlog @ [ev])))"

definition schedule_meal_prep_reminders :: "py_lib \<Rightarrow> datetime \<Rightarrow> event list \<Rightarrow> plan_dict
    \<Rightarrow> event list \<times> (py_error + event list)" where
  "schedule_meal_prep_reminders lib now evlog plan =
     (let base_date = now\<lparr>hour := 18, minute := 0, second := 0, microsecond := 0\<rparr>
      in meal_prep_loop lib base_date (meal_plan plan) [] evlog)"

section \<open>The concierge\<close>

text \<open>
  The state \<open>plan_and_order\<close> reads and changes: \<open>self.fridge.items\<close>,
  \<open>self.grocery_manager.store_catalog\<close> and \<open>self.calendar.events\<close>.
\<close>

record concierge =
  fridge :: "FridgeItem list"
  manager_catalog :: catalog
  calendar :: "event list"

record workflow_result =
  result_meal_plan :: plan_dict
  grocery_search_results :: "product list"
  total_estimated_cost :: rat
  result_order :: "order_result option"
  calendar_events :: "event list"

text \<open>
  What a call of \<open>plan_and_order\<close> leaves behind: the calls it made to
  \<open>create_order\<close> and to the two scheduling methods of the calendar, in order; the
  event log afterwards; and the returned bundle, or the exception that ended the call.
\<close>

datatype component_call =
  Call_create_order | Call_schedule_delivery_reminder | Call_schedule_meal_prep_reminders

record outcome =
  calls :: "component_call list"
  calendar_after :: "event list"
  returned :: "py_error + workflow_result"

definition matched :: "product \<Rightarrow> bool" where
  "matched p = (store_item p \<noteq> None)"

text \<open>\<^verbatim>\<open>GroceryConcierge.plan_and_order\<close>.\<close>

definition plan_and_order :: "py_lib \<Rightarrow> datetime \<Rightarrow> concierge \<Rightarrow> live_outcome \<Rightarrow> int \<Rightarrow> bool \<Rightarrow> outcome" where
  "plan_and_order lib now c live days auto_order =
     (let plan = generate_meal_plan live (fridge c) days;
          grocery_items = grocery_list plan;
          products = search_products (manager_catalog c) grocery_items;
          available_products = filter matched products;
          workflow =
            \<lparr>result_meal_plan = plan,
             grocery_search_results = products,
             total_estimated_cost =
               (if available_products \<noteq> [] then py_sum (store_totals available_products) else 0),
             result_order = None,
             calendar_events = []\<rparr>
      in if auto_order \<and> available_products \<noteq> [] then
           (let preferred_delivery = strftime lib ''%Y-%m-%d 16:00'' (plus_days now 1);
                created = create_order lib now available_products (Some preferred_delivery);
                workflow = workflow\<lparr>result_order := Some created\<rparr>
            in (case created of
                  Order_error msg \<Rightarrow>
                    \<lparr>calls = [Call_create_order],
                     calendar_after = calendar c,
                     returned = Inr workflow\<rparr>
                | Order ord \<Rightarrow>
                    (case schedule_delivery_reminder lib (calendar c) ord of
                       (log1, Inl e) \<Rightarrow>
                         \<lparr>calls = [Call_create_order, Call_schedule_delivery_reminder],
                          calendar_after = log1,
                          returned = Inl e\<rparr>
                     | (log1, Inr delivery_event) \<Rightarrow>
                         (case schedule_meal_prep_reminders lib now log1 plan of
                            (log2, Inl e) \<Rightarrow>
                              \<lparr>calls = [Call_create_order, Call_schedule_delivery_reminder,
                                        Call_schedule_meal_prep_reminders],
                               calendar_after = log2,
                               returned = Inl e\<rparr>
                          | (log2, Inr meal_events) \<Rightarrow>
                              \<lparr>calls = [Call_create_order, Call_schedule_delivery_reminder,
                                        Call_schedule_meal_prep_reminders],
                               calendar_after = log2,
                               returned = Inr (workflow\<lparr>calendar_events := delivery_event # meal_events\<rparr>)\<rparr>))))
         else \<lparr>calls = [], calendar_after = calendar c, returned = Inr workflow\<rparr>)"


section \<open>Sample data\<close>

text \<open>
  Concrete inputs on which the statements below are run: the first two lines of the
  default inventory, the same with a second line named milk, a line with quantity 0,
  a grocery list with one product of the catalog and one unknown to it, a catalog
  whose only product is sold out, and a stand-in for the date and time library that
  covers July 2025, where \<open>day_number\<close> is the day of the month.
\<close>

definition sample_fridge :: "FridgeItem list" where
  "sample_fridge =
     [\<lparr>name = ''Milk'', quantity = 1, unit = ''gallon'', expiry_date = ''2025-07-25'', category = ''dairy''\<rparr>,
      \<lparr>name = ''Eggs'', quantity = 8, unit = ''pieces'', expiry_date = ''2025-07-30'', category = ''dairy''\<rparr>]"

definition sample_duplicates :: "FridgeItem list" where
  "sample_duplicates =
     [\<lparr>name = ''Milk'', quantity = 1, unit = ''gallon'', expiry_date = ''2025-07-25'', category = ''dairy''\<rparr>,
      \<lparr>name = ''Eggs'', quantity = 8, unit = ''pieces'', expiry_date = ''2025-07-30'', category = ''dairy''\<rparr>,
      \<lparr>name = ''MILK'', quantity = 4, unit = ''carton'', expiry_date = ''2025-07-27'', category = ''dairy''\<rparr>]"

definition sample_kiwi :: FridgeItem where
  "sample_kiwi =
     \<lparr>name = ''Kiwi'', quantity = 0, unit = ''pieces'', expiry_date = ''2025-07-29'', category = ''fruit''\<rparr>"

definition two_digits :: "int \<Rightarrow> string" where
  "two_digits n = [digit_char (nat n div 10), digit_char (nat n mod 10)]"

definition july_date :: "datetime \<Rightarrow> string" where
  "july_date dt = ''2025-07-'' @ two_digits (day_number dt)"

definition july_clock :: "datetime \<Rightarrow> string" where
  "july_clock dt = two_digits (hour dt) @ '':'' @ two_digits (minute dt)"

definition july_2025 :: py_lib where
  "july_2025 =
     \<lparr>strftime = (\<lambda>fmt dt.
        if fmt = ''%Y-%m-%d'' then july_date dt
        else if fmt = ''%Y-%m-%d 16:00'' then july_date dt @ '' 16:00''
        else if fmt = ''%Y-%m-%d %H:%M'' then july_date dt @ '' '' @ july_clock dt
        else ''202507'' @ two_digits (day_number dt) @ ''_'' @ two_digits (hour dt)
             @ two_digits (minute dt) @ two_digits (second dt)),
      isoformat = (\<lambda>dt. july_date dt @ ''T'' @ july_clock dt @ '':'' @ two_digits (second dt)),
      fromisoformat = (\<lambda>s.
        if s = ''2025-07-21 16:00''
        then Some \<lparr>day_number = 21, hour = 16, minute = 0, second = 0, microsecond = 0\<rparr>
        else None),
      format_2f = (\<lambda>x. str_int (\<lfloor>x\<rfloor>) @ ''.'' @ two_digits (\<lfloor>round2 x * 100\<rfloor> mod 100))\<rparr>"

definition sample_now :: datetime where
  "sample_now = \<lparr>day_number = 20, hour = 12, minute = 30, second = 5, microsecond = 0\<rparr>"


definition sample_groceries :: "GroceryItem list" where
  "sample_groceries =
     [\<lparr>g_name = ''SPINACH'', g_quantity = 2, g_unit = ''bag'', g_category = ''vegetable'',
       estimated_price = 299 / 100, store_item_id = None\<rparr>,
      \<lparr>g_name = ''Kiwi'', g_quantity = 3, g_unit = ''pieces'', g_category = ''fruit'',
       estimated_price = 0, store_item_id = None\<rparr>]"

definition sold_out_catalog :: catalog where
  "sold_out_catalog =
     [(''spinach'', \<lparr>price = 299 / 100, c_unit = ''bag'', available = False, store_id = ''SPIN001''\<rparr>)]"

definition sold_out_concierge :: concierge where
  "sold_out_concierge =
     \<lparr>fridge = sample_fridge, manager_catalog = sold_out_catalog, calendar = []\<rparr>"

section \<open>Properties of text and numbers\<close>

lemma digit_char_cases:
  "d < 10 \<Longrightarrow> d = 0 \<or> d = 1 \<or> d = 2 \<or> d = 3 \<or> d = 4 \<or> d = 5 \<or> d = 6 \<or> d = 7 \<or> d = 8 \<or> d = (9::nat)"
  by arith

lemma digit_char_facts:
  assumes "d < 10"
  shows "is_digit (digit_char d)" "digit_value (digit_char d) = d"
    "\<not> is_space (digit_char d)" "digit_char d \<noteq> CHR ''_''"
    "digit_char d \<noteq> CHR ''-''" "digit_char d \<noteq> CHR ''+''"
  using digit_char_cases [OF assms]
  by (auto simp: is_digit_def digit_value_def digit_char_def is_space_def)

lemma str_nat_digits: "list_all is_digit (str_nat n)"
proof (induction n rule: str_nat.induct)
  case (1 n)
  show ?case
  proof (cases "n < 10")
    case True
    then show ?thesis by (subst str_nat.simps) (simp add: digit_char_facts)
  next
    case False
    with 1 show ?thesis by (subst str_nat.simps) (simp add: digit_char_facts)
  qed
qed

lemma str_nat_nonempty: "str_nat n \<noteq> []"
  by (subst str_nat.simps) simp

lemma digits_value_snoc: "digits_value (ds @ [c]) = 10 * digits_value ds + digit_value c"
  by (simp add: digits_value_def)

lemma digits_value_str_nat: "digits_value (str_nat n) = n"
proof (induction n rule: str_nat.induct)
  case (1 n)
  show ?case
  proof (cases "n < 10")
    case True
    then show ?thesis
      by (subst str_nat.simps) (simp add: digit_char_facts digits_value_def)
  next
    case False
    with 1 show ?thesis
      by (subst str_nat.simps) (simp add: digit_char_facts digits_value_snoc)
  qed
qed

lemma unsigned_int_str_nat: "unsigned_int (str_nat n) = Some (int n)"
  by (simp add: unsigned_int_def str_nat_nonempty str_nat_digits digits_value_str_nat)

lemma is_digit_not_space: "is_digit c \<Longrightarrow> \<not> is_space c"
  by (auto simp: is_digit_def is_space_def)

lemma is_digit_not_sign: "is_digit c \<Longrightarrow> c \<noteq> CHR ''-'' \<and> c \<noteq> CHR ''+'' \<and> c \<noteq> CHR ''_''"
  by (auto simp: is_digit_def)

lemma strip_digits:
  assumes "list_all is_digit ds"
  shows "strip ds = ds"
proof (cases ds rule: rev_cases)
  case Nil
  then show ?thesis by (simp add: strip_def)
next
  case (snoc front c)
  then have "ds \<noteq> []" by simp
  then obtain a rest where ds: "ds = a # rest" by (cases ds) simp_all
  have a: "\<not> is_space a" using assms ds by (simp add: is_digit_not_space)
  have c: "\<not> is_space c" using assms snoc by (simp add: is_digit_not_space)
  have "dropWhile is_space ds = ds" using a ds by simp
  moreover have "dropWhile is_space (rev ds) = rev ds" using c snoc by simp
  ultimately show ?thesis by (simp add: strip_def)
qed

lemma strip_minus_digits:
  assumes "list_all is_digit ds" "ds \<noteq> []"
  shows "strip (CHR ''-'' # ds) = CHR ''-'' # ds"
proof -
  obtain front c where ds: "ds = front @ [c]" using assms(2) by (cases ds rule: rev_cases) auto
  have c: "\<not> is_space c" using assms ds by (simp add: is_digit_not_space)
  have "dropWhile is_space (CHR ''-'' # ds) = CHR ''-'' # ds" by (simp add: is_space_def)
  moreover have "dropWhile is_space (rev (CHR ''-'' # ds)) = rev (CHR ''-'' # ds)"
    using c ds by simp
  ultimately show ?thesis by (simp add: strip_def)
qed

lemma py_int_str_int: "py_int (str_int k) = Some k"
proof (cases "k < 0")
  case True
  have "strip (str_int k) = CHR ''-'' # str_nat (nat (- k))"
    using True by (simp add: str_int_def strip_minus_digits str_nat_digits str_nat_nonempty)
  then show ?thesis using True by (simp add: py_int_def unsigned_int_str_nat)
next
  case False
  obtain a rest where ds: "str_nat (nat k) = a # rest"
    using str_nat_nonempty [of "nat k"] by (cases "str_nat (nat k)") auto
  have "is_digit a" using str_nat_digits [of "nat k"] ds by simp
  then have a: "a \<noteq> CHR ''-''" "a \<noteq> CHR ''+''" using is_digit_not_sign by auto
  have "strip (str_int k) = a # rest"
    using False ds strip_digits [OF str_nat_digits, of "nat k"] by (simp add: str_int_def)
  moreover have "unsigned_int (a # rest) = Some k"
    using unsigned_int_str_nat [of "nat k"] ds False by simp
  ultimately show ?thesis using a by (simp add: py_int_def)
qed

lemma split_char_no_sep:
  "sep \<notin> set s \<Longrightarrow> split_char sep s = [s]"
  by (induction s) auto

lemma underscore_not_in_str_int: "CHR ''_'' \<notin> set (str_int k)"
proof -
  have "list_all is_digit (str_nat m)" for m by (rule str_nat_digits)
  then have "CHR ''_'' \<notin> set (str_nat m)" for m
    using is_digit_not_sign by (auto simp: list_all_iff)
  then show ?thesis by (simp add: str_int_def)
qed

lemma day_num_of_day_key: "day_num_of (''day_'' @ str_int k) = Inr (k - 1)"
  using split_char_no_sep [OF underscore_not_in_str_int, of k]
  by (simp add: day_num_of_def py_int_str_int)

lemma str_int_inj: "inj str_int"
  by (rule inj_on_inverseI [where g = "\<lambda>s. the (py_int s)"]) (simp add: py_int_str_int)

lemma day_keys_distinct: "distinct (map (\<lambda>k. ''day_'' @ str_int k) [1..N])"
  using str_int_inj by (simp add: distinct_map inj_on_def)

lemma upto_1_2: "[1..2] = [1, 2::int]"
  by (simp add: upto.simps)

lemma str_int_1_2: "str_int 1 = ''1''" "str_int 2 = ''2''"
  by (simp_all add: str_int_def str_nat.simps digit_char_def)

section \<open>Properties of the inventory\<close>

lemma split_at_first_line:
  "first_line items n = Some line \<Longrightarrow> items = before n items @ line # after n items"
  unfolding first_line_def before_def after_def
  by (induction items) (auto simp: same_name_def other_name_def split: if_splits)

lemma first_line_same_name:
  "first_line items n = Some line \<Longrightarrow> same_name n line"
  unfolding first_line_def by (induction items) (auto split: if_splits)

lemma remove_scan_absent:
  "first_line items n = None \<Longrightarrow> remove_scan seen items n q = (False, seen @ items)"
  unfolding first_line_def
  by (induction items arbitrary: seen) (auto simp: same_name_def)

lemma remove_scan_present:
  "first_line items n = Some line \<Longrightarrow> list_all (other_name n) seen \<Longrightarrow>
   remove_scan seen items n q =
     (if q \<le> quantity line
      then (True, seen @ before n items
                  @ (if quantity line - q = 0 then [] else [line\<lparr>quantity := quantity line - q\<rparr>])
                  @ after n items)
      else (False, seen @ items))"
proof (induction items arbitrary: seen)
  case Nil
  then show ?case by (simp add: first_line_def)
next
  case (Cons a items)
  show ?case
  proof (cases "same_name n a")
    case True
    with Cons.prems have line: "line = a" by (simp add: first_line_def)
    have notin: "a\<lparr>quantity := 0\<rparr> \<notin> set seen"
      using Cons.prems(2) True by (auto simp: same_name_def other_name_def list_all_iff)
    show ?thesis using True line notin
      by (auto simp: same_name_def other_name_def before_def after_def Let_def remove1_append)
  next
    case False
    then have "first_line items n = Some line"
      using Cons.prems by (simp add: first_line_def)
    moreover have "other_name n a"
      using False by (simp add: same_name_def other_name_def)
    then have "list_all (other_name n) (seen @ [a])"
      using Cons.prems(2) by simp
    ultimately have IH: "remove_scan (seen @ [a]) items n q =
       (if q \<le> quantity line
        then (True, (seen @ [a]) @ before n items
                    @ (if quantity line - q = 0 then [] else [line\<lparr>quantity := quantity line - q\<rparr>])
                    @ after n items)
        else (False, (seen @ [a]) @ items))"
      by (rule Cons.IH)
    have step: "remove_scan seen (a # items) n q = remove_scan (seen @ [a]) items n q"
      using False by (simp add: same_name_def)
    have parts: "before n (a # items) = a # before n items" "after n (a # items) = after n items"
      using False by (simp_all add: same_name_def other_name_def before_def after_def)
    show ?thesis unfolding step IH parts by simp
  qed
qed

lemma remove_item_absent:
  "first_line items n = None \<Longrightarrow> remove_item items n q = (False, items)"
  by (simp add: remove_item_def remove_scan_absent)

lemma remove_item_present:
  "first_line items n = Some line \<Longrightarrow>
   remove_item items n q =
     (if q \<le> quantity line
      then (True, before n items
                  @ (if quantity line - q = 0 then [] else [line\<lparr>quantity := quantity line - q\<rparr>])
                  @ after n items)
      else (False, items))"
  using remove_scan_present [of items n line "[]" q] by (simp add: remove_item_def)

text \<open>
  C1. Let \<open>line\<close> be the first stored line whose lower-cased name is that of the request.
  When the requested quantity is at most the quantity of \<open>line\<close>, \<open>remove_item\<close>
  returns \<open>True\<close> and the store afterwards is the store before with \<open>line\<close> replaced by
  the same line holding the old quantity minus the requested one, or with \<open>line\<close>
  deleted exactly when that difference is 0. When no line has the name, or \<open>line\<close> holds
  less than requested, it returns \<open>False\<close> (a value, the function is total) and the
  store is unchanged.
\<close>

theorem remove_item_decrements_or_fails:
  "(first_line items n = Some line \<and> q \<le> quantity line \<longrightarrow>
      items = before n items @ line # after n items \<and>
      remove_item items n q =
        (True, before n items
               @ (if quantity line - q = 0 then [] else [line\<lparr>quantity := quantity line - q\<rparr>])
               @ after n items))
   \<and> (first_line items n = None \<or> (first_line items n = Some line \<and> quantity line < q) \<longrightarrow>
      remove_item items n q = (False, items))"
  using split_at_first_line [of items n line]
  by (auto simp: remove_item_absent remove_item_present)

theorem remove_item_decrements_or_fails_witness:
  "first_line sample_fridge ''MILK'' = Some (hd sample_fridge)
   \<and> 1 \<le> quantity (hd sample_fridge)
   \<and> remove_item sample_fridge ''MILK'' 1 = (True, tl sample_fridge)
   \<and> first_line sample_fridge ''eggs'' = Some (sample_fridge ! 1)
   \<and> 3 \<le> quantity (sample_fridge ! 1)
   \<and> remove_item sample_fridge ''eggs'' 3
       = (True, [hd sample_fridge, (sample_fridge ! 1)\<lparr>quantity := 5\<rparr>])
   \<and> quantity (sample_fridge ! 1) < 9
   \<and> remove_item sample_fridge ''eggs'' 9 = (False, sample_fridge)
   \<and> first_line sample_fridge ''Kiwi'' = None
   \<and> remove_item sample_fridge ''Kiwi'' 1 = (False, sample_fridge)"
proof -
  have found: "first_line sample_fridge ''MILK'' = Some (hd sample_fridge)"
    "first_line sample_fridge ''eggs'' = Some (sample_fridge ! 1)"
    "first_line sample_fridge ''Kiwi'' = None"
    by (simp_all add: first_line_def same_name_def sample_fridge_def lower_def lower_char_def)
  have parts: "before ''MILK'' sample_fridge = []" "after ''MILK'' sample_fridge = tl sample_fridge"
    "before ''eggs'' sample_fridge = [hd sample_fridge]" "after ''eggs'' sample_fridge = []"
    by (simp_all add: before_def after_def other_name_def sample_fridge_def lower_def lower_char_def)
  have amounts: "1 \<le> quantity (hd sample_fridge)" "3 \<le> quantity (sample_fridge ! 1)"
    "quantity (sample_fridge ! 1) < 9" "quantity (hd sample_fridge) - 1 = 0"
    "quantity (sample_fridge ! 1) - 3 = 5"
    by (simp_all add: sample_fridge_def)
  show ?thesis
    using remove_item_decrements_or_fails [of sample_fridge "''MILK''" "hd sample_fridge" 1]
      remove_item_decrements_or_fails [of sample_fridge "''eggs''" "sample_fridge ! 1" 3]
      remove_item_decrements_or_fails [of sample_fridge "''eggs''" "sample_fridge ! 1" 9]
      remove_item_decrements_or_fails [of sample_fridge "''Kiwi''" undefined 1]
    unfolding found parts using amounts by simp
qed

lemma add_item_absent:
  "first_line items (name item) = None \<Longrightarrow> add_item items item = items @ [item]"
  unfolding first_line_def
  by (induction items) (auto simp: same_name_def)

lemma add_item_present:
  "first_line items (name item) = Some line \<Longrightarrow>
   add_item items item =
     before (name item) items @ line\<lparr>quantity := quantity line + quantity item\<rparr> # after (name item) items"
  unfolding first_line_def before_def after_def
  by (induction items) (auto simp: same_name_def other_name_def split: if_splits)

lemma filter_other_name_parts:
  "first_line items n = Some line \<Longrightarrow>
   filter (other_name n) items = before n items @ filter (other_name n) (after n items)"
  unfolding first_line_def before_def after_def
  by (induction items) (auto simp: same_name_def other_name_def split: if_splits)

lemma filter_other_name_before:
  "filter (other_name n) (before n items) = before n items"
  unfolding before_def by (induction items) auto

text \<open>
  C10. The lines whose lower-cased name differs from that of the argument are, in
  the same order and with the same fields, those of the store before the call, for
  \<open>remove_item\<close> and for \<open>add_item\<close>. When lines share the name, the call changes
  the first of them only: the lines before it and all the lines after it stay as they
  are, and in its place stands the decremented line, nothing (depletion), the same
  line (a refused removal), or the incremented line (\<open>add_item\<close>). Without a line of
  that name \<open>remove_item\<close> changes nothing and \<open>add_item\<close> appends its argument.
\<close>

theorem calls_leave_other_lines_alone:
  "filter (other_name n) (snd (remove_item items n q)) = filter (other_name n) items
   \<and> filter (other_name (name item)) (add_item items item) = filter (other_name (name item)) items
   \<and> (first_line items n = Some line \<longrightarrow>
        items = before n items @ line # after n items
        \<and> snd (remove_item items n q) =
            before n items
            @ (if q \<le> quantity line
               then (if quantity line - q = 0 then [] else [line\<lparr>quantity := quantity line - q\<rparr>])
               else [line])
            @ after n items)
   \<and> (first_line items n = None \<longrightarrow> snd (remove_item items n q) = items)
   \<and> (first_line items (name item) = Some line \<longrightarrow>
        items = before (name item) items @ line # after (name item) items
        \<and> add_item items item =
            before (name item) items
            @ line\<lparr>quantity := quantity line + quantity item\<rparr> # after (name item) items)
   \<and> (first_line items (name item) = None \<longrightarrow> add_item items item = items @ [item])"
proof -
  have rem_shape: "snd (remove_item items n q) =
            before n items
            @ (if q \<le> quantity line
               then (if quantity line - q = 0 then [] else [line\<lparr>quantity := quantity line - q\<rparr>])
               else [line])
            @ after n items" if found: "first_line items n = Some line" for line
    using split_at_first_line [OF found] remove_item_present [OF found, of q] by auto
  have rem_filter: "filter (other_name n) (snd (remove_item items n q)) = filter (other_name n) items"
  proof (cases "first_line items n")
    case None
    then show ?thesis by (simp add: remove_item_absent)
  next
    case (Some l)
    have l: "\<not> other_name n l" "\<not> other_name n (l\<lparr>quantity := k\<rparr>)" for k
      using first_line_same_name [OF Some] by (simp_all add: same_name_def other_name_def)
    show ?thesis
      unfolding rem_shape [OF Some] filter_other_name_parts [OF Some]
      using l by (simp add: filter_other_name_before)
  qed
  have add_filter: "filter (other_name (name item)) (add_item items item)
      = filter (other_name (name item)) items"
  proof (cases "first_line items (name item)")
    case None
    then show ?thesis by (simp add: add_item_absent other_name_def)
  next
    case (Some l)
    have l: "\<not> other_name (name item) (l\<lparr>quantity := k\<rparr>)" for k
      using first_line_same_name [OF Some] by (simp add: same_name_def other_name_def)
    show ?thesis
      unfolding add_item_present [OF Some] filter_other_name_parts [OF Some]
      using l by (simp add: filter_other_name_before)
  qed
  show ?thesis
    using rem_filter add_filter rem_shape [of line] split_at_first_line [of items n line]
      split_at_first_line [of items "name item" line]
    by (simp add: remove_item_absent add_item_absent add_item_present)
qed

theorem calls_leave_other_lines_alone_witness:
  "first_line sample_duplicates ''milk'' = Some (hd sample_duplicates)
   \<and> snd (remove_item sample_duplicates ''milk'' 1) = tl sample_duplicates
   \<and> first_line sample_duplicates ''Kiwi'' = None
   \<and> snd (remove_item sample_duplicates ''Kiwi'' 1) = sample_duplicates
   \<and> first_line sample_duplicates (name (sample_duplicates ! 2)) = Some (hd sample_duplicates)
   \<and> add_item sample_duplicates (sample_duplicates ! 2)
       = (hd sample_duplicates)\<lparr>quantity := 5\<rparr> # tl sample_duplicates
   \<and> first_line sample_duplicates (name sample_kiwi) = None
   \<and> add_item sample_duplicates sample_kiwi = sample_duplicates @ [sample_kiwi]"
proof -
  have found: "first_line sample_duplicates ''milk'' = Some (hd sample_duplicates)"
    "first_line sample_duplicates ''Kiwi'' = None"
    "first_line sample_duplicates (name (sample_duplicates ! 2)) = Some (hd sample_duplicates)"
    "first_line sample_duplicates (name sample_kiwi) = None"
    by (simp_all add: first_line_def same_name_def sample_duplicates_def sample_kiwi_def lower_def lower_char_def)
  have parts: "before ''milk'' sample_duplicates = []"
    "after ''milk'' sample_duplicates = tl sample_duplicates"
    "before (name (sample_duplicates ! 2)) sample_duplicates = []"
    "after (name (sample_duplicates ! 2)) sample_duplicates = tl sample_duplicates"
    by (simp_all add: before_def after_def other_name_def sample_duplicates_def lower_def lower_char_def)
  have amounts: "1 \<le> quantity (hd sample_duplicates)" "quantity (hd sample_duplicates) - 1 = 0"
    "quantity (hd sample_duplicates) + quantity (sample_duplicates ! 2) = 5"
    by (simp_all add: sample_duplicates_def)
  show ?thesis
    using calls_leave_other_lines_alone
        [of "''milk''" sample_duplicates 1 "sample_duplicates ! 2" "hd sample_duplicates"]
      calls_leave_other_lines_alone [of "''Kiwi''" sample_duplicates 1 sample_kiwi undefined]
    unfolding found parts using amounts by simp
qed

lemma add_item_positive_lines:
  "positive_lines items \<Longrightarrow> 0 < quantity item \<Longrightarrow> positive_lines (add_item items item)"
  unfolding positive_lines_def by (induction items) auto

lemma add_item_no_negative_line:
  "no_negative_line items \<Longrightarrow> 0 \<le> quantity item \<Longrightarrow> no_negative_line (add_item items item)"
  unfolding no_negative_line_def by (induction items) auto

lemma remove_item_positive_lines:
  assumes "positive_lines items"
  shows "positive_lines (snd (remove_item items n q))"
proof (cases "first_line items n")
  case None
  with assms show ?thesis by (simp add: remove_item_absent)
next
  case (Some line)
  have parts: "positive_lines (before n items @ line # after n items)"
    using assms split_at_first_line [OF Some] by simp
  show ?thesis
  proof (cases "q \<le> quantity line")
    case True
    with parts show ?thesis
      unfolding remove_item_present [OF Some] positive_lines_def by auto
  next
    case False
    with assms show ?thesis
      unfolding remove_item_present [OF Some] by simp
  qed
qed

lemma remove_item_no_negative_line:
  assumes "no_negative_line items"
  shows "no_negative_line (snd (remove_item items n q))"
proof (cases "first_line items n")
  case None
  with assms show ?thesis by (simp add: remove_item_absent)
next
  case (Some line)
  have parts: "no_negative_line (before n items @ line # after n items)"
    using assms split_at_first_line [OF Some] by simp
  show ?thesis
  proof (cases "q \<le> quantity line")
    case True
    with parts show ?thesis
      unfolding remove_item_present [OF Some] no_negative_line_def by auto
  next
    case False
    with assms show ?thesis
      unfolding remove_item_present [OF Some] by simp
  qed
qed

lemma apply_call_positive_lines:
  "positive_lines items \<Longrightarrow> quantity_adds_positive c \<Longrightarrow> positive_lines (apply_call items c)"
  by (cases c) (simp_all add: add_item_positive_lines remove_item_positive_lines)

lemma apply_call_no_negative_line:
  "no_negative_line items \<Longrightarrow> quantity_nonneg c \<Longrightarrow> no_negative_line (apply_call items c)"
  by (cases c) (simp_all add: add_item_no_negative_line remove_item_no_negative_line)

lemma run_calls_positive_lines:
  "positive_lines items \<Longrightarrow> list_all quantity_adds_positive cs \<Longrightarrow> positive_lines (run_calls items cs)"
  by (induction cs arbitrary: items) (simp_all add: apply_call_positive_lines)

lemma run_calls_no_negative_line:
  "no_negative_line items \<Longrightarrow> list_all quantity_nonneg cs \<Longrightarrow> no_negative_line (run_calls items cs)"
  by (induction cs arbitrary: items) (simp_all add: apply_call_no_negative_line)

lemma positive_lines_iff:
  "positive_lines items \<longleftrightarrow> no_negative_line items \<and> no_zero_line items"
  unfolding positive_lines_def no_negative_line_def no_zero_line_def
  by (induction items) auto

text \<open>
  C2, as stated, fails: the field constraint \<open>quantity \<ge> 0\<close> admits an item with
  quantity 0, and \<open>add_item\<close> of such an item under a name not yet stored appends it,
  so the store then holds a line with quantity 0. Here the store is the default
  inventory and the call is \<open>add_item\<close> of a kiwi line with quantity 0.
\<close>

theorem zero_line_after_add_counterexample:
  "no_negative_line default_items \<and> no_zero_line default_items
   \<and> list_all quantity_nonneg [Add sample_kiwi]
   \<and> \<not> no_zero_line (run_calls default_items [Add sample_kiwi])"
  by (simp add: no_negative_line_def no_zero_line_def default_items_def sample_kiwi_def
      lower_def lower_char_def)

text \<open>
  C2, amended. Every sequence of \<open>add_item\<close> and \<open>remove_item\<close> calls whose
  arguments have a quantity \<open>\<ge> 0\<close> keeps every stored quantity \<open>\<ge> 0\<close>. When moreover
  the store starts without a line of quantity 0 and every added item has a quantity
  \<open>> 0\<close>, the resulting store holds no line with quantity 0.
\<close>

theorem calls_keep_quantities_positive:
  "(no_negative_line items \<and> list_all quantity_nonneg cs \<longrightarrow> no_negative_line (run_calls items cs))
   \<and> (no_negative_line items \<and> no_zero_line items \<and> list_all quantity_adds_positive cs \<longrightarrow>
        no_negative_line (run_calls items cs) \<and> no_zero_line (run_calls items cs))"
  using run_calls_positive_lines [of items cs] run_calls_no_negative_line [of items cs]
  by (simp add: positive_lines_iff)

theorem calls_keep_quantities_positive_witness:
  "no_negative_line default_items \<and> no_zero_line default_items
   \<and> list_all quantity_nonneg [Add sample_kiwi, Remove ''milk'' 1]
   \<and> no_negative_line (run_calls default_items [Add sample_kiwi, Remove ''milk'' 1])
   \<and> list_all quantity_adds_positive [Add (hd sample_fridge), Remove ''milk'' 2, Remove ''eggs'' 0]
   \<and> no_zero_line (run_calls default_items [Add (hd sample_fridge), Remove ''milk'' 2, Remove ''eggs'' 0])"
proof -
  have start: "no_negative_line default_items" "no_zero_line default_items"
    by (simp_all add: no_negative_line_def no_zero_line_def default_items_def)
  have args: "list_all quantity_nonneg [Add sample_kiwi, Remove ''milk'' 1]"
    "list_all quantity_adds_positive [Add (hd sample_fridge), Remove ''milk'' 2, Remove ''eggs'' 0]"
    by (simp_all add: sample_kiwi_def sample_fridge_def)
  show ?thesis
    using calls_keep_quantities_positive [of default_items "[Add sample_kiwi, Remove ''milk'' 1]"]
      calls_keep_quantities_positive
        [of default_items "[Add (hd sample_fridge), Remove ''milk'' 2, Remove ''eggs'' 0]"]
      start args
    by blast
qed



section \<open>Properties of the meal planner\<close>

text \<open>
  C9. The mock plan does not depend on the inventory it is handed, and reads no clock
  and no state: for a horizon \<open>N\<close> it is the same three meals under each of the \<open>N\<close>
  distinct keys \<open>day_1\<close>, ..., \<open>day_N\<close>, the same four staples, none with price 0, and
  the same three notes. Without an API key, and after a failure of the remote
  generator, \<open>generate_meal_plan\<close> returns this plan.
\<close>

theorem mock_meal_plan_fixed:
  "generate_mock_meal_plan inventory1 N = generate_mock_meal_plan inventory2 N
   \<and> meal_plan (generate_mock_meal_plan inventory1 N) =
        map (\<lambda>k. (''day_'' @ str_int k,
                   [(''breakfast'', ''Scrambled eggs with cheese''),
                    (''lunch'', ''Chicken and vegetable stir-fry''),
                    (''dinner'', ''Grilled salmon with rice and broccoli'')])) [1..N]
   \<and> length (meal_plan (generate_mock_meal_plan inventory1 N)) = nat N
   \<and> distinct (map fst (meal_plan (generate_mock_meal_plan inventory1 N)))
   \<and> map g_name (grocery_list (generate_mock_meal_plan inventory1 N))
        = [''Spinach'', ''Salmon'', ''Pasta'', ''Olive Oil'']
   \<and> map estimated_price (grocery_list (generate_mock_meal_plan inventory1 N))
        = [299 / 100, 1299 / 100, 149 / 100, 499 / 100]
   \<and> grocery_list (generate_mock_meal_plan inventory1 N) \<noteq> []
   \<and> 0 \<notin> set (map estimated_price (grocery_list (generate_mock_meal_plan inventory1 N)))
   \<and> plan_notes (generate_mock_meal_plan inventory1 N) =
        [''This is a mock meal plan. Connect OpenAI API for personalized planning.'',
         ''Use ingredients expiring soon first.'',
         ''Consider batch cooking for efficiency.'']
   \<and> generate_meal_plan No_api_key inventory1 N = generate_mock_meal_plan inventory2 N
   \<and> generate_meal_plan Live_failed inventory1 N = generate_mock_meal_plan inventory2 N"
proof -
  have keys: "map fst (meal_plan (generate_mock_meal_plan inventory1 N))
      = map (\<lambda>k. ''day_'' @ str_int k) [1..N]"
    by (simp add: generate_mock_meal_plan_def comp_def)
  show ?thesis
    unfolding keys using day_keys_distinct [of N]
    by (simp add: generate_mock_meal_plan_def)
qed

section \<open>Properties of the grocery manager\<close>

text \<open>
  C6. \<open>search_products\<close> returns one element per requested item, in the order of the
  request, whatever the catalog holds. An item whose lower-cased name is a key of the
  catalog carries the store's entry with \<open>total_cost\<close> the entry's price times the
  requested quantity; any other item carries no store item and the marker
  \<open>Product not found in store catalog\<close>. The function is total: a miss raises nothing.
\<close>

theorem search_products_one_per_item:
  "length (search_products cat gl) = length gl
   \<and> map requested_item (search_products cat gl) = gl
   \<and> (\<forall>i<length gl.
        (case map_of cat (lower (g_name (gl ! i))) of
           Some entry \<Rightarrow>
             search_products cat gl ! i =
               \<lparr>requested_item = gl ! i,
                store_item = Some \<lparr>si_name = g_name (gl ! i),
                                   si_store_id = store_id entry,
                                   si_price = price entry,
                                   si_unit = c_unit entry,
                                   si_available = available entry,
                                   total_cost = price entry * of_int (g_quantity (gl ! i))\<rparr>,
                error = None\<rparr>
         | None \<Rightarrow>
             search_products cat gl ! i =
               \<lparr>requested_item = gl ! i,
                store_item = None,
                error = Some ''Product not found in store catalog''\<rparr>))"
proof (induction gl)
  case Nil
  then show ?case by simp
next
  case (Cons g gl)
  then show ?case
    by (auto simp: Let_def nth_Cons split: option.splits nat.splits)
qed

theorem search_products_one_per_item_witness:
  "length (search_products store_catalog_init sample_groceries) = 2
   \<and> (0::nat) < length sample_groceries
   \<and> map_of store_catalog_init (lower (g_name (sample_groceries ! 0))) = Some (snd (store_catalog_init ! 4))
   \<and> store_item (search_products store_catalog_init sample_groceries ! 0)
        = Some \<lparr>si_name = ''SPINACH'', si_store_id = ''SPIN001'', si_price = 299 / 100,
                 si_unit = ''bag'', si_available = True, total_cost = 299 / 50\<rparr>
   \<and> (1::nat) < length sample_groceries
   \<and> map_of store_catalog_init (lower (g_name (sample_groceries ! 1))) = None
   \<and> search_products store_catalog_init sample_groceries ! 1
        = \<lparr>requested_item = sample_groceries ! 1, store_item = None,
           error = Some ''Product not found in store catalog''\<rparr>"
proof -
  have len: "length sample_groceries = 2" by (simp add: sample_groceries_def)
  have look: "map_of store_catalog_init (lower (g_name (sample_groceries ! 0))) = Some (snd (store_catalog_init ! 4))"
    "map_of store_catalog_init (lower (g_name (sample_groceries ! 1))) = None"
    by (simp_all add: sample_groceries_def store_catalog_init_def lower_def lower_char_def)
  have entry: "snd (store_catalog_init ! 4)
      = \<lparr>price = 299 / 100, c_unit = ''bag'', available = True, store_id = ''SPIN001''\<rparr>"
    by (simp add: store_catalog_init_def)
  have item: "g_name (sample_groceries ! 0) = ''SPINACH''" "g_quantity (sample_groceries ! 0) = 2"
    by (simp_all add: sample_groceries_def)
  have at: "\<forall>i<length sample_groceries. P i \<Longrightarrow> P 0 \<and> P 1" for P
    using len by simp
  show ?thesis
    using search_products_one_per_item [of store_catalog_init sample_groceries] len
    apply (elim conjE)
    apply (drule at)
    unfolding look entry using item by simp
qed

lemma matched_and_available_matched: "matched_and_available p \<Longrightarrow> matched p"
  by (auto simp: matched_and_available_def matched_def split: option.splits)

lemma filter_available_of_matched:
  "filter matched_and_available (filter matched ps) = filter matched_and_available ps"
  by (induction ps) (auto dest: matched_and_available_matched)

lemma store_totals_of_matched: "store_totals (filter matched ps) = store_totals ps"
  by (induction ps) (auto simp: store_totals_def matched_def List.map_filter_simps split: option.splits)


lemma create_order_none_available:
  "filter matched_and_available ps = [] \<Longrightarrow>
   create_order lib now ps delivery_time = Order_error ''No available products to order''"
  by (simp add: create_order_def)




section \<open>Properties of the calendar manager\<close>

lemma meal_prep_loop_day_keys:
  "map fst entries = map (\<lambda>k. ''day_'' @ str_int k) ks \<Longrightarrow>
   meal_prep_loop lib base entries events evlog =
     (evlog @ map (\<lambda>(k, m). meal_prep_event lib base (''day_'' @ str_int k) m (k - 1))
                 (zip ks (map snd entries)),
      Inr (events @ map (\<lambda>(k, m). meal_prep_event lib base (''day_'' @ str_int k) m (k - 1))
                 (zip ks (map snd entries))))"
proof (induction entries arbitrary: ks events evlog)
  case Nil
  then show ?case by simp
next
  case (Cons entry entries)
  obtain key m where entry: "entry = (key, m)" by (cases entry)
  from Cons.prems obtain k ks' where ks: "ks = k # ks'" by (cases ks) auto
  with Cons.prems entry have key: "key = ''day_'' @ str_int k"
    and rest: "map fst entries = map (\<lambda>k. ''day_'' @ str_int k) ks'" by auto
  have num: "day_num_of key = Inr (k - 1)"
    unfolding key by (rule day_num_of_day_key)
  show ?case
    unfolding entry ks
    using Cons.IH [OF rest] num key by (simp add: Let_def)
qed

lemma zip_upto_nth:
  assumes "length ms = nat N"
  shows "map f (zip [1..N] ms) = map (\<lambda>k. f (k, ms ! nat (k - 1))) [1..N]"
proof (rule nth_equalityI)
  show "length (map f (zip [1..N] ms)) = length (map (\<lambda>k. f (k, ms ! nat (k - 1))) [1..N])"
    using assms by simp
next
  fix i assume "i < length (map f (zip [1..N] ms))"
  then have i: "i < nat N" using assms by simp
  then have nth: "[1..N] ! i = 1 + int i" by (simp add: nth_upto)
  show "map f (zip [1..N] ms) ! i = map (\<lambda>k. f (k, ms ! nat (k - 1))) [1..N] ! i"
    using i assms nth by simp
qed

text \<open>
  C7. For a meal plan whose day keys are \<open>day_1\<close>, ..., \<open>day_N\<close>,
  \<open>schedule_meal_prep_reminders\<close> raises nothing, appends \<open>N\<close> events to the event log
  and returns exactly the events it appended. The event of day \<open>k\<close> starts at 18:00:00
  on the day of the call plus \<open>k - 1\<close> days, and its description carries the dinner and
  the breakfast of that day (\<open>TBD\<close> for a meal the day does not list).
\<close>

theorem meal_prep_reminders_one_per_day:
  assumes "map fst (meal_plan plan) = map (\<lambda>k. ''day_'' @ str_int k) [1..N]"
  shows "(let new = map (\<lambda>k.
               \<lparr>event_id = ''MEAL_PREP_day_'' @ str_int k,
                title = ''Meal Prep - Day '' @ str_int k,
                description = ''Tonight'' @ [CHR 0x27] @ ''s dinner: ''
                   @ dict_get (snd (meal_plan plan ! nat (k - 1))) ''dinner'' ''TBD''
                   @ [CHR 0x0A]
                   @ ''Tomorrow'' @ [CHR 0x27] @ ''s breakfast: ''
                   @ dict_get (snd (meal_plan plan ! nat (k - 1))) ''breakfast'' ''TBD'',
                start_time = isoformat lib
                   \<lparr>day_number = day_number now + (k - 1), hour = 18, minute = 0, second = 0,
                    microsecond = 0\<rparr>,
                reminder_time = None,
                duration_minutes = Some 60,
                event_type = ''meal_prep'',
                event_status = ''scheduled''\<rparr>) [1..N]
          in schedule_meal_prep_reminders lib now evlog plan = (evlog @ new, Inr new)
             \<and> length new = nat N
             \<and> length new = length (meal_plan plan))"
proof -
  have len: "length (map snd (meal_plan plan)) = nat N"
    using arg_cong [OF assms, of length] by simp
  have base: "plus_days (now\<lparr>hour := 18, minute := 0, second := 0, microsecond := 0\<rparr>) d
      = \<lparr>day_number = day_number now + d, hour = 18, minute = 0, second = 0, microsecond = 0\<rparr>" for d
    by (simp add: plus_days_def)
  have nth_snd: "map snd (meal_plan plan) ! nat (k - 1) = snd (meal_plan plan ! nat (k - 1))"
    if "k \<in> set [1..N]" for k
    using that len by (simp add: nth_map)
  show ?thesis
    unfolding schedule_meal_prep_reminders_def Let_def
      meal_prep_loop_day_keys [OF assms] zip_upto_nth [OF len]
    using len nth_snd by (simp add: meal_prep_event_def base cong: map_cong)
qed

theorem meal_prep_reminders_one_per_day_witness:
  "map fst (meal_plan (generate_mock_meal_plan sample_fridge 2)) = map (\<lambda>k. ''day_'' @ str_int k) [1..2]
   \<and> (case schedule_meal_prep_reminders july_2025 sample_now [] (generate_mock_meal_plan sample_fridge 2) of
        (evlog, r) \<Rightarrow>
          r = Inr evlog
          \<and> map event_id evlog = [''MEAL_PREP_day_1'', ''MEAL_PREP_day_2'']
          \<and> map start_time evlog = [''2025-07-20T18:00:00'', ''2025-07-21T18:00:00''])"
proof -
  have keys: "map fst (meal_plan (generate_mock_meal_plan sample_fridge 2))
      = map (\<lambda>k. ''day_'' @ str_int k) [1..2]"
    by (simp add: generate_mock_meal_plan_def)
  show ?thesis
    using keys meal_prep_reminders_one_per_day [OF keys, of july_2025 sample_now "[]"]
    by (simp add: Let_def upto_1_2 str_int_1_2 july_2025_def july_date_def july_clock_def
        two_digits_def digit_char_def sample_now_def)
qed

section \<open>Properties of the concierge\<close>


lemma plan_and_order_refused:
  "auto_order \<Longrightarrow>
   filter matched (search_products (manager_catalog c)
        (grocery_list (generate_meal_plan live (fridge c) days))) \<noteq> [] \<Longrightarrow>
   filter matched_and_available (search_products (manager_catalog c)
        (grocery_list (generate_meal_plan live (fridge c) days))) = [] \<Longrightarrow>
   plan_and_order lib now c live days auto_order =
     \<lparr>calls = [Call_create_order], calendar_after = calendar c,
      returned = Inr \<lparr>result_meal_plan = generate_meal_plan live (fridge c) days,
                      grocery_search_results = search_products (manager_catalog c)
                         (grocery_list (generate_meal_plan live (fridge c) days)),
                      total_estimated_cost = py_sum (store_totals (search_products (manager_catalog c)
                         (grocery_list (generate_meal_plan live (fridge c) days)))),
                      result_order = Some (Order_error ''No available products to order''),
                      calendar_events = []\<rparr>\<rparr>"
proof -
  let ?ps = "search_products (manager_catalog c) (grocery_list (generate_meal_plan live (fridge c) days))"
  assume a: "auto_order" and m: "filter matched ?ps \<noteq> []"
    and none: "filter matched_and_available ?ps = []"
  have refused: "create_order lib now (filter matched ?ps) delivery_time
      = Order_error ''No available products to order''" for delivery_time
  proof (rule create_order_none_available)
    show "filter matched_and_available (filter matched ?ps) = []"
      by (simp only: filter_available_of_matched none)
  qed
  show ?thesis
    using a m by (simp add: plan_and_order_def Let_def store_totals_of_matched refused)
qed




text \<open>
  C5. When no product of the list is both matched and available (the list may be empty,
  hold only misses, or hold only unavailable products), \<open>create_order\<close> returns the
  error dictionary and no order. This is a returned value: inside \<open>plan_and_order\<close>
  the call still returns its bundle, with the error as its order, no calendar event, and
  the event log untouched.
\<close>

theorem create_order_refuses_empty_selection:
  "(filter matched_and_available products = [] \<longrightarrow>
      create_order lib now products delivery_time = Order_error ''No available products to order''
      \<and> (\<forall>ord. create_order lib now products delivery_time \<noteq> Order ord))
   \<and> (let plan = generate_meal_plan live (fridge c) days;
           ps = search_products (manager_catalog c) (grocery_list plan)
       in auto_order \<and> filter matched ps \<noteq> [] \<and> filter matched_and_available ps = [] \<longrightarrow>
            plan_and_order lib now c live days auto_order =
              \<lparr>calls = [Call_create_order],
               calendar_after = calendar c,
               returned = Inr \<lparr>result_meal_plan = plan,
                               grocery_search_results = ps,
                               total_estimated_cost = py_sum (store_totals ps),
                               result_order = Some (Order_error ''No available products to order''),
                               calendar_events = []\<rparr>\<rparr>)"
  using plan_and_order_refused [of auto_order c live days lib now]
  by (simp add: create_order_none_available Let_def)

lemma mock_groceries_sold_out:
  "search_products sold_out_catalog (grocery_list (generate_mock_meal_plan inventory n))
   = [\<lparr>requested_item = hd (grocery_list (generate_mock_meal_plan inventory n)),
       store_item = Some \<lparr>si_name = ''Spinach'', si_store_id = ''SPIN001'', si_price = 299 / 100,
                          si_unit = ''bag'', si_available = False, total_cost = 299 / 100\<rparr>,
       error = None\<rparr>,
      \<lparr>requested_item = grocery_list (generate_mock_meal_plan inventory n) ! 1,
       store_item = None, error = Some ''Product not found in store catalog''\<rparr>,
      \<lparr>requested_item = grocery_list (generate_mock_meal_plan inventory n) ! 2,
       store_item = None, error = Some ''Product not found in store catalog''\<rparr>,
      \<lparr>requested_item = grocery_list (generate_mock_meal_plan inventory n) ! 3,
       store_item = None, error = Some ''Product not found in store catalog''\<rparr>]"
  by (simp add: generate_mock_meal_plan_def sold_out_catalog_def lower_def lower_char_def)

theorem create_order_refuses_empty_selection_witness:
  "filter matched_and_available
      (search_products sold_out_catalog (grocery_list (generate_mock_meal_plan sample_fridge 2))) = []
   \<and> filter matched
      (search_products sold_out_catalog (grocery_list (generate_mock_meal_plan sample_fridge 2))) \<noteq> []
   \<and> create_order july_2025 sample_now
        (search_products sold_out_catalog (grocery_list (generate_mock_meal_plan sample_fridge 2))) None
      = Order_error ''No available products to order''
   \<and> calls (plan_and_order july_2025 sample_now sold_out_concierge No_api_key 2 True) = [Call_create_order]
   \<and> calendar_after (plan_and_order july_2025 sample_now sold_out_concierge No_api_key 2 True) = []
   \<and> (case returned (plan_and_order july_2025 sample_now sold_out_concierge No_api_key 2 True) of
         Inl e \<Rightarrow> False
       | Inr w \<Rightarrow> result_order w = Some (Order_error ''No available products to order'')
                  \<and> calendar_events w = [] \<and> total_estimated_cost w = 299 / 100)"
proof -
  have sel: "filter matched_and_available
      (search_products sold_out_catalog (grocery_list (generate_mock_meal_plan sample_fridge 2))) = []"
    "filter matched
      (search_products sold_out_catalog (grocery_list (generate_mock_meal_plan sample_fridge 2))) \<noteq> []"
    "store_totals
      (search_products sold_out_catalog (grocery_list (generate_mock_meal_plan sample_fridge 2))) = [299 / 100]"
    unfolding mock_groceries_sold_out
    by (simp_all add: matched_and_available_def matched_def store_totals_def List.map_filter_simps)
  have state: "manager_catalog sold_out_concierge = sold_out_catalog"
    "fridge sold_out_concierge = sample_fridge" "calendar sold_out_concierge = []"
    by (simp_all add: sold_out_concierge_def)
  show ?thesis
    using create_order_refuses_empty_selection
      [of "search_products sold_out_catalog (grocery_list (generate_mock_meal_plan sample_fridge 2))"
          july_2025 sample_now None No_api_key sold_out_concierge 2 True]
    unfolding state using sel by (simp add: Let_def py_sum_def)
qed






end
